theory Spec2Isabelle
  imports Complex_Main
begin

section \<open>Numbers of the source language\<close>

text \<open>
  The chart component of \<^verbatim>\<open>src/grapn.tsx\<close> computes with JavaScript numbers. A number is
  modelled as a real, one of the two infinities, or NaN. Finite arithmetic is exact: the
  rounding of IEEE doubles and the sign of a zero are not modelled (a division of a nonzero
  number by zero takes the zero as positive). Everything else follows the language:
  \<open>0 / 0\<close>, \<open>Infinity - Infinity\<close> and \<open>0 * Infinity\<close> are NaN, NaN propagates through
  arithmetic, and every comparison with NaN is false.
\<close>

datatype number = Fin real | PosInfinity | NegInfinity | NaN

fun js_neg :: "number \<Rightarrow> number" where
  "js_neg (Fin a) = Fin (- a)"
| "js_neg PosInfinity = NegInfinity"
| "js_neg NegInfinity = PosInfinity"
| "js_neg NaN = NaN"

fun js_add :: "number \<Rightarrow> number \<Rightarrow> number" where
  "js_add (Fin a) (Fin b) = Fin (a + b)"
| "js_add NaN _ = NaN"
| "js_add _ NaN = NaN"
| "js_add PosInfinity NegInfinity = NaN"
| "js_add NegInfinity PosInfinity = NaN"
| "js_add PosInfinity _ = PosInfinity"
| "js_add _ PosInfinity = PosInfinity"
| "js_add NegInfinity _ = NegInfinity"
| "js_add _ NegInfinity = NegInfinity"

definition js_sub :: "number \<Rightarrow> number \<Rightarrow> number" where
  "js_sub a b = js_add a (js_neg b)"

fun js_mul :: "number \<Rightarrow> number \<Rightarrow> number" where
  "js_mul (Fin a) (Fin b) = Fin (a * b)"
| "js_mul NaN _ = NaN"
| "js_mul _ NaN = NaN"
| "js_mul (Fin a) y = (if a = 0 then NaN else if 0 < a then y else js_neg y)"
| "js_mul x (Fin b) = (if b = 0 then NaN else if 0 < b then x else js_neg x)"
| "js_mul PosInfinity y = y"
| "js_mul NegInfinity y = js_neg y"

fun js_div :: "number \<Rightarrow> number \<Rightarrow> number" where
  "js_div (Fin a) (Fin b) =
     (if b = 0 then (if a = 0 then NaN else if 0 < a then PosInfinity else NegInfinity)
      else Fin (a / b))"
| "js_div NaN _ = NaN"
| "js_div _ NaN = NaN"
| "js_div (Fin a) _ = Fin 0"
| "js_div x (Fin b) = (if 0 \<le> b then x else js_neg x)"
| "js_div _ _ = NaN"

fun js_lt :: "number \<Rightarrow> number \<Rightarrow> bool" where
  "js_lt (Fin a) (Fin b) = (a < b)"
| "js_lt NaN _ = False"
| "js_lt _ NaN = False"
| "js_lt _ NegInfinity = False"
| "js_lt NegInfinity _ = True"
| "js_lt PosInfinity _ = False"
| "js_lt _ PosInfinity = True"

fun js_le :: "number \<Rightarrow> number \<Rightarrow> bool" where
  "js_le (Fin a) (Fin b) = (a \<le> b)"
| "js_le NaN _ = False"
| "js_le _ NaN = False"
| "js_le NegInfinity _ = True"
| "js_le _ PosInfinity = True"
| "js_le _ _ = False"

text \<open>\<open>a || b\<close> on numbers: \<open>0\<close> and NaN are falsy, every other number is truthy.\<close>

fun truthy :: "number \<Rightarrow> bool" where
  "truthy (Fin a) = (a \<noteq> 0)"
| "truthy NaN = False"
| "truthy _ = True"

definition js_or :: "number \<Rightarrow> number \<Rightarrow> number" where
  "js_or a b = (if truthy a then a else b)"

text \<open>
  \<open>Math.min\<close> and \<open>Math.max\<close> take any number of arguments (the source spreads an array
  into them): with none they return \<open>Infinity\<close> and \<open>-Infinity\<close>, and NaN if any argument
  is NaN.
\<close>

definition js_min2 :: "number \<Rightarrow> number \<Rightarrow> number" where
  "js_min2 a b = (if a = NaN \<or> b = NaN then NaN else if js_lt b a then b else a)"

definition js_max2 :: "number \<Rightarrow> number \<Rightarrow> number" where
  "js_max2 a b = (if a = NaN \<or> b = NaN then NaN else if js_lt a b then b else a)"

definition Math_min :: "number list \<Rightarrow> number" where
  "Math_min args = foldr js_min2 args PosInfinity"

definition Math_max :: "number list \<Rightarrow> number" where
  "Math_max args = foldr js_max2 args NegInfinity"

fun Math_sqrt :: "number \<Rightarrow> number" where
  "Math_sqrt (Fin a) = (if a < 0 then NaN else Fin (sqrt a))"
| "Math_sqrt PosInfinity = PosInfinity"
| "Math_sqrt _ = NaN"

text \<open>\<open>Math.pow\<close> with a natural exponent (the source only squares).\<close>

fun Math_pow :: "number \<Rightarrow> nat \<Rightarrow> number" where
  "Math_pow (Fin a) n = Fin (a ^ n)"
| "Math_pow PosInfinity n = (if n = 0 then Fin 1 else PosInfinity)"
| "Math_pow NegInfinity n = (if n = 0 then Fin 1 else if even n then PosInfinity else NegInfinity)"
| "Math_pow NaN n = (if n = 0 then Fin 1 else NaN)"

text \<open>
  Reading \<open>a[i]\<close>: out of range the result is \<open>undefined\<close> (here \<open>None\<close>), which arithmetic
  turns into NaN.
\<close>

definition at_index :: "number list \<Rightarrow> nat \<Rightarrow> number option" where
  "at_index a i = (if i < length a then Some (a ! i) else None)"

fun ToNumber :: "number option \<Rightarrow> number" where
  "ToNumber None = NaN"
| "ToNumber (Some v) = v"

section \<open>Scale calculator and coordinate mapper\<close>

record scales =
  minX :: number
  maxX :: number
  minY :: number
  maxY :: number
  scaleX :: number
  scaleY :: number

definition calculateScales ::
  "number list \<Rightarrow> number list \<Rightarrow> number \<Rightarrow> number \<Rightarrow> number \<Rightarrow> scales" where
  "calculateScales xData yData width height margin =
     (let minX = Math_min xData;
          maxX = Math_max xData;
          minY = Math_min yData;
          maxY = Math_max yData;
          scaleX = js_div (js_sub width (js_mul (Fin 2) margin)) (js_or (js_sub maxX minX) (Fin 1));
          scaleY = js_div (js_sub height (js_mul (Fin 2) margin)) (js_or (js_sub maxY minY) (Fin 1))
      in \<lparr>minX = minX, maxX = maxX, minY = minY, maxY = maxY, scaleX = scaleX, scaleY = scaleY\<rparr>)"

record converters =
  toCanvasX :: "number \<Rightarrow> number"
  toCanvasY :: "number \<Rightarrow> number"
  toDataX :: "number \<Rightarrow> number"
  toDataY :: "number \<Rightarrow> number"

definition getCoordinateConverters :: "number \<Rightarrow> number \<Rightarrow> scales \<Rightarrow> converters" where
  "getCoordinateConverters margin height scales =
     \<lparr>toCanvasX = (\<lambda>x. js_add margin (js_mul (js_sub x (minX scales)) (scaleX scales))),
      toCanvasY = (\<lambda>y. js_sub (js_sub height margin) (js_mul (js_sub y (minY scales)) (scaleY scales))),
      toDataX = (\<lambda>canvasX. js_add (minX scales) (js_div (js_sub canvasX margin) (scaleX scales))),
      toDataY = (\<lambda>canvasY. js_add (minY scales)
                   (js_div (js_sub (js_sub height margin) canvasY) (scaleY scales)))\<rparr>"

section \<open>Hit tester\<close>

text \<open>
  The drawable surface behind \<open>canvasRef.current\<close>: the origin of its bounding rectangle
  and whether \<open>getContext('2d')\<close> yields a context. The reference is \<open>None\<close> while no
  canvas element is mounted.
\<close>

record canvas =
  rect_left :: number
  rect_top :: number
  has_2d :: bool

record mouse_event =
  clientX :: number
  clientY :: number

text \<open>
  The loop of \<open>handleMouseMove\<close>. \<open>pointDistance\<close> is the distance it computes at index \<open>i\<close>
  from the pointer to the pixel position of point \<open>i\<close>, and \<open>closestStep\<close> is one pass of
  the loop body on the loop state \<open>(closestIndex, minDistance)\<close>. The loop runs over the
  indices \<open>0, ..., xData.length - 1\<close> from the state \<open>(-1, Infinity)\<close>.
\<close>

definition pointDistance ::
  "number list \<Rightarrow> number list \<Rightarrow> number \<Rightarrow> number \<Rightarrow> scales \<Rightarrow> number \<Rightarrow> number \<Rightarrow> nat \<Rightarrow> number" where
  "pointDistance xData yData height margin scales mouseX mouseY i =
     (let canvasX = js_add margin
            (js_mul (js_sub (ToNumber (at_index xData i)) (minX scales)) (scaleX scales));
          canvasY = js_sub (js_sub height margin)
            (js_mul (js_sub (ToNumber (at_index yData i)) (minY scales)) (scaleY scales))
      in Math_sqrt (js_add (Math_pow (js_sub mouseX canvasX) 2) (Math_pow (js_sub mouseY canvasY) 2)))"

definition closestStep ::
  "number list \<Rightarrow> number list \<Rightarrow> number \<Rightarrow> number \<Rightarrow> scales \<Rightarrow> number \<Rightarrow> number \<Rightarrow>
   int \<times> number \<Rightarrow> nat \<Rightarrow> int \<times> number" where
  "closestStep xData yData height margin scales mouseX mouseY st i =
     (let distance = pointDistance xData yData height margin scales mouseX mouseY i
      in if js_lt distance (Fin 20) \<and> js_lt distance (snd st) then (int i, distance) else st)"

text \<open>
  The handlers return the new value of the state \<open>hoveredPoint\<close> (\<open>None\<close> is \<open>null\<close>).
  Without a canvas \<open>handleMouseMove\<close> returns early and the state stays as it was. The
  handler also fetches \<open>toDataX\<close> and \<open>toDataY\<close> from the converters and never calls them.
\<close>

definition handleMouseMove ::
  "canvas option \<Rightarrow> number list \<Rightarrow> number list \<Rightarrow> number \<Rightarrow> number \<Rightarrow> number \<Rightarrow>
   mouse_event \<Rightarrow> int option \<Rightarrow> int option" where
  "handleMouseMove canvasRef xData yData width height margin event hoveredPoint =
     (case canvasRef of
        None \<Rightarrow> hoveredPoint
      | Some canvas \<Rightarrow>
          (let mouseX = js_sub (clientX event) (rect_left canvas);
               mouseY = js_sub (clientY event) (rect_top canvas);
               scales = calculateScales xData yData width height margin;
               closestIndex = fst (foldl (closestStep xData yData height margin scales mouseX mouseY)
                                     (- 1, PosInfinity) [0..<length xData])
           in if closestIndex \<noteq> - 1 then Some closestIndex else None))"

definition handleMouseLeave :: "int option \<Rightarrow> int option" where
  "handleMouseLeave hoveredPoint = None"

section \<open>Renderer\<close>

text \<open>
  The renderer is modelled by the sequence of calls and property assignments it makes on
  the 2D context. The text of a label is kept as the numbers it formats: \<open>ToFixed2 v\<close> is
  \<open>v.toFixed(2)\<close>, and \<open>HoverLabel x y\<close> is the template \<open>(x.toFixed(2), y.toFixed(2))\<close>.
\<close>

datatype label = ToFixed2 number | HoverLabel number number

datatype call =
    ClearRect number number number number
  | StrokeStyle string
  | LineWidth number
  | Font string
  | FillStyle string
  | TextAlign string
  | BeginPath
  | MoveTo number number
  | LineTo number number
  | Stroke
  | FillText label number number
  | Arc number number number number number
  | Fill

datatype js_error = TypeError

definition xSteps :: "scales \<Rightarrow> number" where
  "xSteps scales = Math_min [Fin 10, js_sub (maxX scales) (minX scales)]"

definition ySteps :: "scales \<Rightarrow> number" where
  "ySteps scales = Math_min [Fin 10, js_sub (maxY scales) (minY scales)]"

text \<open>
  The two grid loops, from the loop counter \<open>i\<close> on. \<open>xGridLine\<close> and \<open>yGridLine\<close> are
  what one pass draws once it has computed the data value \<open>x\<close> (or \<open>y\<close>) of its line.
\<close>

definition xGridLine :: "converters \<Rightarrow> number \<Rightarrow> number \<Rightarrow> number \<Rightarrow> call list" where
  "xGridLine conv height margin x =
     (let canvasX = toCanvasX conv x
      in [BeginPath,
          MoveTo canvasX margin,
          LineTo canvasX (js_sub height margin),
          Stroke,
          TextAlign ''center'',
          FillText (ToFixed2 x) canvasX (js_add (js_sub height margin) (Fin 20))])"

definition yGridLine :: "converters \<Rightarrow> number \<Rightarrow> number \<Rightarrow> number \<Rightarrow> call list" where
  "yGridLine conv width margin y =
     (let canvasY = toCanvasY conv y
      in [BeginPath,
          MoveTo margin canvasY,
          LineTo (js_sub width margin) canvasY,
          Stroke,
          TextAlign ''right'',
          FillText (ToFixed2 y) (js_sub margin (Fin 10)) (js_add canvasY (Fin 4))])"

function xGridLines :: "scales \<Rightarrow> converters \<Rightarrow> number \<Rightarrow> number \<Rightarrow> nat \<Rightarrow> call list" where
  "xGridLines scales conv height margin i =
     (if js_le (Fin (real i)) (xSteps scales) then
        (let x = js_add (minX scales)
                   (js_mul (js_sub (maxX scales) (minX scales)) (js_div (Fin (real i)) (xSteps scales)))
         in xGridLine conv height margin x)
        @ xGridLines scales conv height margin (Suc i)
      else [])"
  by pat_completeness auto
termination
proof (relation "measure (\<lambda>(scales, conv, height, margin, i). 11 - i)")
  show "wf (measure (\<lambda>(scales, conv, height, margin, i). 11 - i))" by simp
next
  fix scales :: scales and conv :: converters and height margin :: number and i :: nat
  assume "js_le (Fin (real i)) (xSteps scales)"
  then have "real i \<le> 10"
    by (cases "js_sub (maxX scales) (minX scales)")
       (auto simp: xSteps_def Math_min_def js_min2_def split: if_splits)
  then show "((scales, conv, height, margin, Suc i), (scales, conv, height, margin, i))
               \<in> measure (\<lambda>(scales, conv, height, margin, i). 11 - i)" by simp
qed

function yGridLines :: "scales \<Rightarrow> converters \<Rightarrow> number \<Rightarrow> number \<Rightarrow> nat \<Rightarrow> call list" where
  "yGridLines scales conv width margin i =
     (if js_le (Fin (real i)) (ySteps scales) then
        (let y = js_add (minY scales)
                   (js_mul (js_sub (maxY scales) (minY scales)) (js_div (Fin (real i)) (ySteps scales)))
         in yGridLine conv width margin y)
        @ yGridLines scales conv width margin (Suc i)
      else [])"
  by pat_completeness auto
termination
proof (relation "measure (\<lambda>(scales, conv, width, margin, i). 11 - i)")
  show "wf (measure (\<lambda>(scales, conv, width, margin, i). 11 - i))" by simp
next
  fix scales :: scales and conv :: converters and width margin :: number and i :: nat
  assume "js_le (Fin (real i)) (ySteps scales)"
  then have "real i \<le> 10"
    by (cases "js_sub (maxY scales) (minY scales)")
       (auto simp: ySteps_def Math_min_def js_min2_def split: if_splits)
  then show "((scales, conv, width, margin, Suc i), (scales, conv, width, margin, i))
               \<in> measure (\<lambda>(scales, conv, width, margin, i). 11 - i)" by simp
qed

declare xGridLines.simps [simp del] yGridLines.simps [simp del]

definition drawAxes :: "number \<Rightarrow> number \<Rightarrow> number \<Rightarrow> call list" where
  "drawAxes width height margin =
     [StrokeStyle ''#000'', LineWidth (Fin 2),
      BeginPath,
      MoveTo margin (js_sub height margin),
      LineTo (js_sub width margin) (js_sub height margin),
      Stroke,
      BeginPath,
      MoveTo margin margin,
      LineTo margin (js_sub height margin),
      Stroke]"

definition drawLine :: "converters \<Rightarrow> number list \<Rightarrow> number list \<Rightarrow> string \<Rightarrow> call list" where
  "drawLine conv xData yData lineColor =
     [StrokeStyle lineColor, LineWidth (Fin 2), BeginPath]
     @ map (\<lambda>i. let canvasX = toCanvasX conv (ToNumber (at_index xData i));
                     canvasY = toCanvasY conv (ToNumber (at_index yData i))
                 in if i = 0 then MoveTo canvasX canvasY else LineTo canvasX canvasY)
           [0..<length xData]
     @ [Stroke]"

definition drawPoints :: "converters \<Rightarrow> number list \<Rightarrow> number list \<Rightarrow> string \<Rightarrow> call list" where
  "drawPoints conv xData yData pointColor =
     [FillStyle pointColor]
     @ concat (map (\<lambda>i. let canvasX = toCanvasX conv (ToNumber (at_index xData i));
                             canvasY = toCanvasY conv (ToNumber (at_index yData i))
                         in [BeginPath,
                             Arc canvasX canvasY (Fin 4) (Fin 0) (js_mul (Fin 2) (Fin pi)),
                             Fill])
                   [0..<length xData])"

text \<open>
  The hover highlight. Its guard admits an index within \<open>xData\<close> only. \<open>toFixed\<close> called
  on \<open>undefined\<close> throws a \<open>TypeError\<close>: the calls made before it stay made, and the text
  is not drawn.
\<close>

definition drawHover ::
  "converters \<Rightarrow> number list \<Rightarrow> number list \<Rightarrow> int option \<Rightarrow> call list \<times> js_error option" where
  "drawHover conv xData yData hoveredPoint =
     (case hoveredPoint of
        None \<Rightarrow> ([], None)
      | Some h \<Rightarrow>
          if 0 \<le> h \<and> h < int (length xData) then
            (let canvasX = toCanvasX conv (ToNumber (at_index xData (nat h)));
                 canvasY = toCanvasY conv (ToNumber (at_index yData (nat h)));
                 before = [FillStyle ''#ff0000'',
                           BeginPath,
                           Arc canvasX canvasY (Fin 6) (Fin 0) (js_mul (Fin 2) (Fin pi)),
                           Fill,
                           FillStyle ''#000'',
                           Font ''14px Arial'',
                           TextAlign ''left'']
             in case (at_index xData (nat h), at_index yData (nat h)) of
                  (Some x, Some y) \<Rightarrow>
                    (before @ [FillText (HoverLabel x y) (js_add canvasX (Fin 10)) (js_sub canvasY (Fin 10))],
                     None)
                | _ \<Rightarrow> (before, Some TypeError))
          else ([], None))"

definition drawGraph ::
  "canvas option \<Rightarrow> number list \<Rightarrow> number list \<Rightarrow> number \<Rightarrow> number \<Rightarrow> number \<Rightarrow>
   string \<Rightarrow> string \<Rightarrow> string \<Rightarrow> int option \<Rightarrow> call list \<times> js_error option" where
  "drawGraph canvasRef xData yData width height margin lineColor pointColor gridColor hoveredPoint =
     (case canvasRef of
        None \<Rightarrow> ([], None)
      | Some canvas \<Rightarrow>
          if \<not> has_2d canvas then ([], None)
          else
            (let scales = calculateScales xData yData width height margin;
                 conv = getCoordinateConverters margin height scales;
                 hover = drawHover conv xData yData hoveredPoint
             in ([ClearRect (Fin 0) (Fin 0) width height,
                  StrokeStyle gridColor, LineWidth (Fin 1), Font ''12px Arial'', FillStyle ''#666'']
                 @ xGridLines scales conv height margin 0
                 @ yGridLines scales conv width margin 0
                 @ drawAxes width height margin
                 @ drawLine conv xData yData lineColor
                 @ drawPoints conv xData yData pointColor
                 @ fst hover,
                 snd hover)))"

section \<open>The component\<close>

text \<open>
  What \<open>Graph\<close> returns: the error element (a \<open>div\<close> holding a fixed message, in Russian,
  that the data arrays must have the same length and not be empty) or the canvas of the
  given size with both pointer handlers attached.
\<close>

datatype element = ErrorDiv | CanvasBox number number

record props =
  xData :: "number list"
  yData :: "number list"
  width :: "number option"
  height :: "number option"
  margin :: "number option"
  lineColor :: "string option"
  pointColor :: "string option"
  gridColor :: "string option"

fun default :: "'a \<Rightarrow> 'a option \<Rightarrow> 'a" where
  "default d None = d"
| "default d (Some v) = v"

definition Graph_element :: "props \<Rightarrow> element" where
  "Graph_element p =
     (if length (xData p) \<noteq> length (yData p) \<or> length (xData p) = 0 then ErrorDiv
      else CanvasBox (default (Fin 600) (width p)) (default (Fin 400) (height p)))"

text \<open>
  One render of \<open>Graph\<close> followed by its effect. React attaches the reference to the
  canvas element the render returned, or leaves it \<open>null\<close> when the render returned no
  canvas, and then runs the effect, which calls \<open>drawGraph\<close>. The result is the element
  and what the effect did to the surface.
\<close>

definition Graph ::
  "props \<Rightarrow> canvas \<Rightarrow> int option \<Rightarrow> element \<times> (call list \<times> js_error option)" where
  "Graph p surface hoveredPoint =
     (let element = Graph_element p;
          canvasRef = (case element of ErrorDiv \<Rightarrow> None | CanvasBox w h \<Rightarrow> Some surface)
      in (element,
          drawGraph canvasRef (xData p) (yData p)
            (default (Fin 600) (width p)) (default (Fin 400) (height p)) (default (Fin 50) (margin p))
            (default ''#007acc'' (lineColor p)) (default ''#ff4444'' (pointColor p))
            (default ''#e0e0e0'' (gridColor p)) hoveredPoint))"

section \<open>The specification's formulas in real arithmetic\<close>

text \<open>
  On finite data, not empty, the scales, the pixel positions of the points and their
  distances to the pointer are finite numbers, so they can be compared with plain
  real-valued formulas. These follow the wording of the specification and are related to
  the model by the lemmas below.

  \<open>rangeOr1\<close> is the range of a sequence with 1 in place of a zero range; \<open>pixelX\<close> and
  \<open>pixelY\<close> are the forward mapping \<open>margin + (x - minX) * scaleX\<close> and
  \<open>height - margin - (y - minY) * scaleY\<close>.
\<close>

definition rangeOr1 :: "real list \<Rightarrow> real" where
  "rangeOr1 vs = (if Max (set vs) - Min (set vs) = 0 then 1 else Max (set vs) - Min (set vs))"

definition pixelX :: "real list \<Rightarrow> real \<Rightarrow> real \<Rightarrow> real \<Rightarrow> real" where
  "pixelX xs w m x = m + (x - Min (set xs)) * ((w - 2 * m) / rangeOr1 xs)"

definition pixelY :: "real list \<Rightarrow> real \<Rightarrow> real \<Rightarrow> real \<Rightarrow> real" where
  "pixelY ys h m y = h - m - (y - Min (set ys)) * ((h - 2 * m) / rangeOr1 ys)"

text \<open>
  The Euclidean distances from the pointer \<open>(px, py)\<close> to the pixel positions of the points,
  in index order, and the hit test as the specification words it: the index of the minimum
  distance, the first one among equals, if that minimum is below 20, and none otherwise.
\<close>

definition pixelDistances ::
  "real list \<Rightarrow> real list \<Rightarrow> real \<Rightarrow> real \<Rightarrow> real \<Rightarrow> real \<Rightarrow> real \<Rightarrow> real list" where
  "pixelDistances xs ys w h m px py =
     map (\<lambda>i. sqrt ((px - pixelX xs w m (xs ! i)) ^ 2 + (py - pixelY ys h m (ys ! i)) ^ 2))
         [0..<length xs]"










section \<open>Finite data: the model computes the real-valued formulas\<close>

lemma js_sub_Fin [simp]: "js_sub (Fin a) (Fin b) = Fin (a - b)"
  by (simp add: js_sub_def)

lemma Math_min_Fin: "vs \<noteq> [] \<Longrightarrow> Math_min (map Fin vs) = Fin (Min (set vs))"
proof (induction vs)
  case Nil
  then show ?case by simp
next
  case (Cons v vs)
  show ?case
  proof (cases "vs = []")
    case True
    then show ?thesis by (simp add: Math_min_def js_min2_def)
  next
    case False
    with Cons.IH have "Math_min (map Fin vs) = Fin (Min (set vs))" by simp
    then have "Math_min (map Fin (v # vs)) = js_min2 (Fin v) (Fin (Min (set vs)))"
      by (simp add: Math_min_def)
    also have "\<dots> = Fin (min v (Min (set vs)))"
      by (simp add: js_min2_def min_def)
    finally show ?thesis using False by simp
  qed
qed

lemma Math_max_Fin: "vs \<noteq> [] \<Longrightarrow> Math_max (map Fin vs) = Fin (Max (set vs))"
proof (induction vs)
  case Nil
  then show ?case by simp
next
  case (Cons v vs)
  show ?case
  proof (cases "vs = []")
    case True
    then show ?thesis by (simp add: Math_max_def js_max2_def)
  next
    case False
    with Cons.IH have "Math_max (map Fin vs) = Fin (Max (set vs))" by simp
    then have "Math_max (map Fin (v # vs)) = js_max2 (Fin v) (Fin (Max (set vs)))"
      by (simp add: Math_max_def)
    also have "\<dots> = Fin (max v (Max (set vs)))"
      by (simp add: js_max2_def max_def)
    finally show ?thesis using False by simp
  qed
qed

lemma range_denominator:
  "js_or (Fin (Max (set vs) - Min (set vs))) (Fin 1) = Fin (rangeOr1 vs)"
  by (simp add: js_or_def rangeOr1_def)

lemma rangeOr1_nonzero: "rangeOr1 vs \<noteq> 0"
  by (simp add: rangeOr1_def)

lemma calculateScales_Fin:
  assumes "xs \<noteq> []" "ys \<noteq> []"
  shows "calculateScales (map Fin xs) (map Fin ys) (Fin w) (Fin h) (Fin m) =
           \<lparr>minX = Fin (Min (set xs)), maxX = Fin (Max (set xs)),
            minY = Fin (Min (set ys)), maxY = Fin (Max (set ys)),
            scaleX = Fin ((w - 2 * m) / rangeOr1 xs),
            scaleY = Fin ((h - 2 * m) / rangeOr1 ys)\<rparr>"
  using assms
  by (simp add: calculateScales_def Let_def range_denominator rangeOr1_nonzero
                Math_min_Fin Math_max_Fin)

lemma toCanvasX_Fin:
  assumes "xs \<noteq> []" "ys \<noteq> []"
  shows "toCanvasX (getCoordinateConverters (Fin m) (Fin h)
            (calculateScales (map Fin xs) (map Fin ys) (Fin w) (Fin h) (Fin m))) (Fin x)
         = Fin (pixelX xs w m x)"
  by (simp add: calculateScales_Fin [OF assms] getCoordinateConverters_def pixelX_def)

lemma toCanvasY_Fin:
  assumes "xs \<noteq> []" "ys \<noteq> []"
  shows "toCanvasY (getCoordinateConverters (Fin m) (Fin h)
            (calculateScales (map Fin xs) (map Fin ys) (Fin w) (Fin h) (Fin m))) (Fin y)
         = Fin (pixelY ys h m y)"
  by (simp add: calculateScales_Fin [OF assms] getCoordinateConverters_def pixelY_def)








lemma pixelDistances_length [simp]: "length (pixelDistances xs ys w h m px py) = length xs"
  by (simp add: pixelDistances_def)





lemma closest_index_range:
  "fst (foldl (closestStep xD yD h m sc mx my) (- 1, PosInfinity) [0..<n]) = - 1 \<or>
   (\<exists>i<n. fst (foldl (closestStep xD yD h m sc mx my) (- 1, PosInfinity) [0..<n]) = int i)"
proof (induction n)
  case 0
  show ?case by simp
next
  case (Suc n)
  let ?st = "foldl (closestStep xD yD h m sc mx my) (- 1, PosInfinity) [0..<n]"
  have "foldl (closestStep xD yD h m sc mx my) (- 1, PosInfinity) [0..<Suc n]
          = closestStep xD yD h m sc mx my ?st n" by simp
  moreover have "closestStep xD yD h m sc mx my ?st n = ?st \<or>
                 fst (closestStep xD yD h m sc mx my ?st n) = int n"
    by (simp add: closestStep_def Let_def)
  ultimately show ?case using Suc.IH by (auto simp: less_Suc_eq)
qed

lemma drawHover_no_error:
  "length xD = length yD \<Longrightarrow> snd (drawHover conv xD yD hp) = None"
  by (auto simp: drawHover_def at_index_def Let_def nat_less_iff split: option.splits)

lemma drawHover_guard:
  "hp = None \<or> (\<exists>i. hp = Some i \<and> \<not> (0 \<le> i \<and> i < int (length xD))) \<Longrightarrow>
   fst (drawHover conv xD yD hp) = []"
  by (auto simp: drawHover_def)

lemma drawGraph_error:
  "snd (drawGraph cref xD yD w h m lc pc gc hp) = None \<or>
   snd (drawGraph cref xD yD w h m lc pc gc hp) =
     snd (drawHover (getCoordinateConverters m h (calculateScales xD yD w h m)) xD yD hp)"
  by (simp add: drawGraph_def Let_def split: option.splits)

lemma Math_min_10_Fin: "Math_min [Fin 10, Fin r] = Fin (min 10 r)"
  by (simp add: Math_min_def js_min2_def min_def)












lemma xGridLines_zero_range:
  assumes "minX sc = Fin lo" "maxX sc = Fin lo"
  shows "xGridLines sc conv h m 0 = xGridLine conv h m NaN"
  using assms
  by (simp add: xGridLines.simps [of _ _ _ _ 0] xGridLines.simps [of _ _ _ _ "Suc 0"]
                xSteps_def Math_min_10_Fin)

lemma yGridLines_zero_range:
  assumes "minY sc = Fin lo" "maxY sc = Fin lo"
  shows "yGridLines sc conv w m 0 = yGridLine conv w m NaN"
  using assms
  by (simp add: yGridLines.simps [of _ _ _ _ 0] yGridLines.simps [of _ _ _ _ "Suc 0"]
                ySteps_def Math_min_10_Fin)



section \<open>Properties\<close>

text \<open>
  Below, a valid series is given as two lists of reals \<open>xs\<close> and \<open>ys\<close> of the same length,
  not empty, and passed to the component as \<open>map Fin xs\<close> and \<open>map Fin ys\<close>; width, height
  and margin are the reals \<open>w\<close>, \<open>h\<close> and \<open>m\<close>.
\<close>

subsection \<open>C1: the converters are inverses of each other\<close>




subsection \<open>C2: the hit tester picks the nearest point within 20 pixels\<close>




subsection \<open>C3: no drawing for an invalid series\<close>

text \<open>
  C3. When the two arrays differ in length or are empty, the component returns the error
  element in place of the canvas, and its effect makes no call on the surface (and throws
  nothing): without a canvas element the reference is empty and \<open>drawGraph\<close> returns at
  once.
\<close>

theorem invalid_series_error_display:
  assumes "length (xData p) \<noteq> length (yData p) \<or> length (xData p) = 0"
  shows "Graph p surface hp = (ErrorDiv, ([], None))"
  using assms by (auto simp: Graph_def Graph_element_def drawGraph_def Let_def)

text \<open>
  The arrays \<open>[1, 2]\<close> and \<open>[1]\<close>, every optional property left out.
\<close>

theorem invalid_series_error_display_witness:
  "Graph \<lparr>xData = [Fin 1, Fin 2], yData = [Fin 1], width = None, height = None, margin = None,
          lineColor = None, pointColor = None, gridColor = None\<rparr>
         \<lparr>rect_left = Fin 0, rect_top = Fin 0, has_2d = True\<rparr> None
   = (ErrorDiv, ([], None))"
  using invalid_series_error_display
          [of "\<lparr>xData = [Fin 1, Fin 2], yData = [Fin 1], width = None, height = None, margin = None,
          lineColor = None, pointColor = None, gridColor = None\<rparr>"
              "\<lparr>rect_left = Fin 0, rect_top = Fin 0, has_2d = True\<rparr>" None]
  by simp

subsection \<open>C4: the gridlines\<close>




subsection \<open>C5: the single point\<close>

text \<open>
  C5. For \<open>X = [5]\<close>, \<open>Y = [5]\<close> the denominator of both scales resolves to 1, so
  nothing is divided by zero, and the scales are \<open>scaleX = width - 2 * margin\<close> and
  \<open>scaleY = height - 2 * margin\<close>.
\<close>

theorem single_point_scales:
  "js_or (js_sub (Math_max [Fin 5]) (Math_min [Fin 5])) (Fin 1) = Fin 1
   \<and> scaleX (calculateScales [Fin 5] [Fin 5] (Fin w) (Fin h) (Fin m)) = Fin (w - 2 * m)
   \<and> scaleY (calculateScales [Fin 5] [Fin 5] (Fin w) (Fin h) (Fin m)) = Fin (h - 2 * m)"
  by (simp add: calculateScales_def Let_def Math_min_def Math_max_def js_min2_def js_max2_def js_or_def)

text \<open>
  In the default view, 600 by 400 with margin 50, the scales of the single point are 500
  and 300, not 1.
\<close>

theorem single_point_scales_counterexample:
  "scaleX (calculateScales [Fin 5] [Fin 5] (Fin 600) (Fin 400) (Fin 50)) = Fin 500
   \<and> scaleY (calculateScales [Fin 5] [Fin 5] (Fin 600) (Fin 400) (Fin 50)) = Fin 300
   \<and> scaleX (calculateScales [Fin 5] [Fin 5] (Fin 600) (Fin 400) (Fin 50)) \<noteq> Fin 1
   \<and> scaleY (calculateScales [Fin 5] [Fin 5] (Fin 600) (Fin 400) (Fin 50)) \<noteq> Fin 1"
  by (simp add: calculateScales_def Let_def Math_min_def Math_max_def js_min2_def js_max2_def js_or_def)

subsection \<open>C6: a zero range\<close>

text \<open>
  C6. For every valid series whose X range is zero, the denominator \<open>maxX - minX || 1\<close> is 1
  and \<open>scaleX = width - 2 * margin\<close>, a finite number; likewise for Y with the height.
\<close>

theorem zero_range_scale:
  assumes "xs \<noteq> []" "length xs = length ys"
  shows "(Max (set xs) = Min (set xs) \<longrightarrow>
            js_or (js_sub (maxX (calculateScales (map Fin xs) (map Fin ys) (Fin w) (Fin h) (Fin m)))
                          (minX (calculateScales (map Fin xs) (map Fin ys) (Fin w) (Fin h) (Fin m))))
                  (Fin 1) = Fin 1
            \<and> scaleX (calculateScales (map Fin xs) (map Fin ys) (Fin w) (Fin h) (Fin m)) = Fin (w - 2 * m))
       \<and> (Max (set ys) = Min (set ys) \<longrightarrow>
            js_or (js_sub (maxY (calculateScales (map Fin xs) (map Fin ys) (Fin w) (Fin h) (Fin m)))
                          (minY (calculateScales (map Fin xs) (map Fin ys) (Fin w) (Fin h) (Fin m))))
                  (Fin 1) = Fin 1
            \<and> scaleY (calculateScales (map Fin xs) (map Fin ys) (Fin w) (Fin h) (Fin m)) = Fin (h - 2 * m))"
proof -
  from assms have ys: "ys \<noteq> []" by auto
  show ?thesis
    by (simp add: calculateScales_Fin [OF assms(1) ys] rangeOr1_def js_or_def)
qed

text \<open>
  The constant series \<open>[3, 3]\<close>, \<open>[7, 7]\<close> in the default view.
\<close>

theorem zero_range_scale_witness:
  "scaleX (calculateScales (map Fin [3, 3]) (map Fin [7, 7]) (Fin 600) (Fin 400) (Fin 50)) = Fin 500
   \<and> scaleY (calculateScales (map Fin [3, 3]) (map Fin [7, 7]) (Fin 600) (Fin 400) (Fin 50)) = Fin 300"
  using zero_range_scale [of "[3, 3]" "[7, 7]" 600 400 50] by simp

subsection \<open>C7: the corners of the demo series\<close>


subsection \<open>C8: ties go to the lowest index\<close>



subsection \<open>C9: the hover state stays within the series\<close>

text \<open>
  C9. For arrays of equal length \<open>N\<close>, whatever numbers they hold: after a pointer move on
  the mounted canvas the hover state is none or an index \<open>i < N\<close>, and after a pointer leave
  it is none. The renderer never reads outside the arrays, whatever the hover state it is
  given (no \<open>TypeError\<close>), and it draws no highlight for a state that is none or outside
  \<open>0 \<le> i < N\<close>.
\<close>

theorem hover_state_in_range:
  assumes "length xD = length yD"
  shows "(handleMouseMove (Some c) xD yD w h m ev hp = None
          \<or> (\<exists>i<length xD. handleMouseMove (Some c) xD yD w h m ev hp = Some (int i)))
       \<and> handleMouseLeave hp = None
       \<and> snd (drawGraph cref xD yD w h m lc pc gc hp') = None
       \<and> (hp' = None \<or> (\<exists>i. hp' = Some i \<and> \<not> (0 \<le> i \<and> i < int (length xD))) \<longrightarrow>
            fst (drawHover (getCoordinateConverters m h (calculateScales xD yD w h m)) xD yD hp') = [])"
proof -
  have "handleMouseMove (Some c) xD yD w h m ev hp = None
          \<or> (\<exists>i<length xD. handleMouseMove (Some c) xD yD w h m ev hp = Some (int i))"
    using closest_index_range [of xD yD h m "calculateScales xD yD w h m"
            "js_sub (clientX ev) (rect_left c)" "js_sub (clientY ev) (rect_top c)" "length xD"]
    by (auto simp: handleMouseMove_def Let_def)
  moreover have "handleMouseLeave hp = None" by (simp add: handleMouseLeave_def)
  moreover have "snd (drawGraph cref xD yD w h m lc pc gc hp') = None"
    using drawGraph_error [of cref xD yD w h m lc pc gc hp'] drawHover_no_error [OF assms] by auto
  moreover have "hp' = None \<or> (\<exists>i. hp' = Some i \<and> \<not> (0 \<le> i \<and> i < int (length xD))) \<longrightarrow>
            fst (drawHover (getCoordinateConverters m h (calculateScales xD yD w h m)) xD yD hp') = []"
    using drawHover_guard by blast
  ultimately show ?thesis by blast
qed

text \<open>
  Two points, and a renderer that is handed the index 7.
\<close>

theorem hover_state_in_range_witness:
  "(handleMouseMove (Some \<lparr>rect_left = Fin 0, rect_top = Fin 0, has_2d = True\<rparr>)
       [Fin 0, Fin 1] [Fin 0, Fin 1] (Fin 600) (Fin 400) (Fin 50)
       \<lparr>clientX = Fin 50, clientY = Fin 350\<rparr> (Some 1) = None
     \<or> (\<exists>i<2. handleMouseMove (Some \<lparr>rect_left = Fin 0, rect_top = Fin 0, has_2d = True\<rparr>)
            [Fin 0, Fin 1] [Fin 0, Fin 1] (Fin 600) (Fin 400) (Fin 50)
            \<lparr>clientX = Fin 50, clientY = Fin 350\<rparr> (Some 1) = Some (int i)))
   \<and> handleMouseLeave (Some 1) = None
   \<and> snd (drawGraph (Some \<lparr>rect_left = Fin 0, rect_top = Fin 0, has_2d = True\<rparr>)
            [Fin 0, Fin 1] [Fin 0, Fin 1] (Fin 600) (Fin 400) (Fin 50)
            ''#007acc'' ''#ff4444'' ''#e0e0e0'' (Some 7)) = None
   \<and> fst (drawHover (getCoordinateConverters (Fin 50) (Fin 400)
                 (calculateScales [Fin 0, Fin 1] [Fin 0, Fin 1] (Fin 600) (Fin 400) (Fin 50)))
            [Fin 0, Fin 1] [Fin 0, Fin 1] (Some 7)) = []"
  using hover_state_in_range [where xD = "[Fin 0, Fin 1]" and yD = "[Fin 0, Fin 1]"
          and c = "\<lparr>rect_left = Fin 0, rect_top = Fin 0, has_2d = True\<rparr>"
          and w = "Fin 600" and h = "Fin 400" and m = "Fin 50"
          and ev = "\<lparr>clientX = Fin 50, clientY = Fin 350\<rparr>" and hp = "Some 1"
          and cref = "Some \<lparr>rect_left = Fin 0, rect_top = Fin 0, has_2d = True\<rparr>"
          and lc = "''#007acc''" and pc = "''#ff4444''" and gc = "''#e0e0e0''" and hp' = "Some 7"]
  by (simp add: numeral_2_eq_2)

subsection \<open>C10: the gridline of a zero range\<close>

text \<open>
  C10. For every valid series with a zero range on the X axis, the step count is 0, the
  only pass of the grid loop is \<open>i = 0\<close>, its quotient \<open>i / xSteps\<close> is \<open>0 / 0\<close>, that is NaN, and
  the one gridline and its label are drawn at the coordinate NaN, with the label value NaN;
  likewise on the Y axis.
\<close>

theorem grid_lines_zero_range:
  assumes "xs \<noteq> []" "length xs = length ys"
  shows "(Max (set xs) = Min (set xs) \<longrightarrow>
            xSteps (calculateScales (map Fin xs) (map Fin ys) (Fin w) (Fin h) (Fin m)) = Fin 0
          \<and> js_div (Fin 0) (xSteps (calculateScales (map Fin xs) (map Fin ys) (Fin w) (Fin h) (Fin m))) = NaN
          \<and> xGridLines (calculateScales (map Fin xs) (map Fin ys) (Fin w) (Fin h) (Fin m))
              (getCoordinateConverters (Fin m) (Fin h)
                 (calculateScales (map Fin xs) (map Fin ys) (Fin w) (Fin h) (Fin m))) (Fin h) (Fin m) 0
            = [BeginPath, MoveTo NaN (Fin m), LineTo NaN (Fin (h - m)), Stroke, TextAlign ''center'',
               FillText (ToFixed2 NaN) NaN (Fin (h - m + 20))])
       \<and> (Max (set ys) = Min (set ys) \<longrightarrow>
            ySteps (calculateScales (map Fin xs) (map Fin ys) (Fin w) (Fin h) (Fin m)) = Fin 0
          \<and> js_div (Fin 0) (ySteps (calculateScales (map Fin xs) (map Fin ys) (Fin w) (Fin h) (Fin m))) = NaN
          \<and> yGridLines (calculateScales (map Fin xs) (map Fin ys) (Fin w) (Fin h) (Fin m))
              (getCoordinateConverters (Fin m) (Fin h)
                 (calculateScales (map Fin xs) (map Fin ys) (Fin w) (Fin h) (Fin m))) (Fin w) (Fin m) 0
            = [BeginPath, MoveTo (Fin m) NaN, LineTo (Fin (w - m)) NaN, Stroke, TextAlign ''right'',
               FillText (ToFixed2 NaN) (Fin (m - 10)) NaN])"
proof -
  let ?sc = "calculateScales (map Fin xs) (map Fin ys) (Fin w) (Fin h) (Fin m)"
  let ?conv = "getCoordinateConverters (Fin m) (Fin h) ?sc"
  from assms(1,2) have ys: "ys \<noteq> []" by auto
  note sc = calculateScales_Fin [OF assms(1) ys, where w = w and h = h and m = m]
  have mnx: "minX ?sc = Fin (Min (set xs))" and mxx: "maxX ?sc = Fin (Max (set xs))"
    and mny: "minY ?sc = Fin (Min (set ys))" and mxy: "maxY ?sc = Fin (Max (set ys))"
    by (simp_all add: sc)
  have X: "xSteps ?sc = Fin 0 \<and> js_div (Fin 0) (xSteps ?sc) = NaN
          \<and> xGridLines ?sc ?conv (Fin h) (Fin m) 0
            = [BeginPath, MoveTo NaN (Fin m), LineTo NaN (Fin (h - m)), Stroke, TextAlign ''center'',
               FillText (ToFixed2 NaN) NaN (Fin (h - m + 20))]"
    if eq: "Max (set xs) = Min (set xs)"
  proof -
    have st: "xSteps ?sc = Fin 0" by (simp add: xSteps_def mnx mxx eq Math_min_10_Fin)
    have "xGridLines ?sc ?conv (Fin h) (Fin m) 0 = xGridLine ?conv (Fin h) (Fin m) NaN"
      by (rule xGridLines_zero_range [OF mnx]) (simp add: mxx eq)
    then show ?thesis
      by (simp add: st xGridLine_def getCoordinateConverters_def Let_def js_sub_def)
  qed
  have Y: "ySteps ?sc = Fin 0 \<and> js_div (Fin 0) (ySteps ?sc) = NaN
          \<and> yGridLines ?sc ?conv (Fin w) (Fin m) 0
            = [BeginPath, MoveTo (Fin m) NaN, LineTo (Fin (w - m)) NaN, Stroke, TextAlign ''right'',
               FillText (ToFixed2 NaN) (Fin (m - 10)) NaN]"
    if eq: "Max (set ys) = Min (set ys)"
  proof -
    have st: "ySteps ?sc = Fin 0" by (simp add: ySteps_def mny mxy eq Math_min_10_Fin)
    have "yGridLines ?sc ?conv (Fin w) (Fin m) 0 = yGridLine ?conv (Fin w) (Fin m) NaN"
      by (rule yGridLines_zero_range [OF mny]) (simp add: mxy eq)
    then show ?thesis
      by (simp add: st yGridLine_def getCoordinateConverters_def Let_def js_sub_def)
  qed
  from X Y show ?thesis by blast
qed

text \<open>
  The single point \<open>X = [5]\<close>, \<open>Y = [5]\<close> in the default view.
\<close>

theorem grid_lines_zero_range_witness:
  "xGridLines (calculateScales (map Fin [5]) (map Fin [5]) (Fin 600) (Fin 400) (Fin 50))
      (getCoordinateConverters (Fin 50) (Fin 400)
         (calculateScales (map Fin [5]) (map Fin [5]) (Fin 600) (Fin 400) (Fin 50)))
      (Fin 400) (Fin 50) 0
     = [BeginPath, MoveTo NaN (Fin 50), LineTo NaN (Fin 350), Stroke, TextAlign ''center'',
        FillText (ToFixed2 NaN) NaN (Fin 370)]
   \<and> yGridLines (calculateScales (map Fin [5]) (map Fin [5]) (Fin 600) (Fin 400) (Fin 50))
      (getCoordinateConverters (Fin 50) (Fin 400)
         (calculateScales (map Fin [5]) (map Fin [5]) (Fin 600) (Fin 400) (Fin 50)))
      (Fin 600) (Fin 50) 0
     = [BeginPath, MoveTo (Fin 50) NaN, LineTo (Fin 550) NaN, Stroke, TextAlign ''right'',
        FillText (ToFixed2 NaN) (Fin 40) NaN]"
  using grid_lines_zero_range [where xs = "[5]" and ys = "[5]" and w = 600 and h = 400 and m = 50]
  by simp

end
